theory Spec2Isabelle
  imports Main
begin

section \<open>Python values and documents\<close>

text \<open>
  The module \<^verbatim>\<open>server/apps/preferences.py\<close> works on user documents, session
  documents and preference maps: Python dictionaries with string keys whose values are
  JSON-like. A dictionary is an association list in insertion order (the order in which
  Python iterates it); a well-formed one has no key twice. Floating point values are
  left out of the value universe.
\<close>

datatype pyval =
    PNone
  | PBool bool
  | PInt int
  | PStr string
  | PObjectId string
  | PList "pyval list"
  | PDict "(string \<times> pyval) list"

type_synonym doc = "(string \<times> pyval) list"

text \<open>
  The exceptions the module can raise. \<open>OutsideModel\<close> is not a Python exception: it
  marks the one place where Python would go on with a dictionary that has a key that is
  no string, which is no document (\<^verbatim>\<open>dict.update\<close> given a sequence of pairs).
\<close>

datatype error =
    ValidationError string
  | KeyError string
  | AttributeError
  | TypeError
  | ValueError
  | OutsideModel

text \<open>Python truthiness (\<^verbatim>\<open>bool(v)\<close>).\<close>

fun truthy :: "pyval \<Rightarrow> bool" where
  "truthy PNone = False"
| "truthy (PBool b) = b"
| "truthy (PInt i) = (i \<noteq> 0)"
| "truthy (PStr s) = (s \<noteq> [])"
| "truthy (PObjectId h) = True"
| "truthy (PList xs) = (xs \<noteq> [])"
| "truthy (PDict d) = (d \<noteq> [])"

subsection \<open>Operations on dictionaries\<close>

text \<open>\<^verbatim>\<open>d.get(k, default)\<close> on a dictionary.\<close>

definition dict_get :: "doc \<Rightarrow> string \<Rightarrow> pyval \<Rightarrow> pyval" where
  "dict_get d k dflt = (case map_of d k of None \<Rightarrow> dflt | Some v \<Rightarrow> v)"

text \<open>\<^verbatim>\<open>d[k]\<close> on a dictionary: a missing key raises \<^verbatim>\<open>KeyError\<close>.\<close>

definition dict_getitem :: "doc \<Rightarrow> string \<Rightarrow> error + pyval" where
  "dict_getitem d k = (case map_of d k of None \<Rightarrow> Inl (KeyError k) | Some v \<Rightarrow> Inr v)"

text \<open>
  \<^verbatim>\<open>d[k] = v\<close>: an existing key keeps its place and takes the new value, a new key
  goes to the end.
\<close>

fun dict_setitem :: "doc \<Rightarrow> string \<Rightarrow> pyval \<Rightarrow> doc" where
  "dict_setitem [] k v = [(k, v)]"
| "dict_setitem ((k', v') # d) k v =
     (if k' = k then (k, v) # d else (k', v') # dict_setitem d k v)"

text \<open>\<^verbatim>\<open>d.update(e)\<close> for a dictionary \<open>e\<close>: \<^verbatim>\<open>d[k] = v\<close> for each item of \<open>e\<close> in turn.\<close>

definition dict_update :: "doc \<Rightarrow> doc \<Rightarrow> doc" where
  "dict_update d e = fold (\<lambda>(k, v) acc. dict_setitem acc k v) e d"

text \<open>\<^verbatim>\<open>d.setdefault(k, v)\<close>: only a missing key is set.\<close>

definition dict_setdefault :: "doc \<Rightarrow> string \<Rightarrow> pyval \<Rightarrow> doc" where
  "dict_setdefault d k v = (case map_of d k of None \<Rightarrow> dict_setitem d k v | Some _ \<Rightarrow> d)"

subsection \<open>The same operations on an arbitrary value\<close>

text \<open>
  The module calls dictionary methods on values it has read out of a document without
  checking what they are. On a value without the method Python raises
  \<^verbatim>\<open>AttributeError\<close>; subscripting a non-dictionary with a string raises
  \<^verbatim>\<open>TypeError\<close>.
\<close>

text \<open>\<^verbatim>\<open>v.get(k, default)\<close>.\<close>

fun py_get :: "pyval \<Rightarrow> string \<Rightarrow> pyval \<Rightarrow> error + pyval" where
  "py_get (PDict d) k dflt = Inr (dict_get d k dflt)"
| "py_get _ k dflt = Inl AttributeError"

text \<open>\<^verbatim>\<open>v[k]\<close> with a string \<open>k\<close>.\<close>

fun py_getitem :: "pyval \<Rightarrow> string \<Rightarrow> error + pyval" where
  "py_getitem (PDict d) k = dict_getitem d k"
| "py_getitem _ k = Inl TypeError"

text \<open>\<^verbatim>\<open>v.copy()\<close>: dictionaries and lists have it.\<close>

fun py_copy :: "pyval \<Rightarrow> error + pyval" where
  "py_copy (PDict d) = Inr (PDict d)"
| "py_copy (PList xs) = Inr (PList xs)"
| "py_copy _ = Inl AttributeError"

text \<open>\<^verbatim>\<open>v.items()\<close>.\<close>

fun py_items :: "pyval \<Rightarrow> error + doc" where
  "py_items (PDict d) = Inr d"
| "py_items _ = Inl AttributeError"

text \<open>\<^verbatim>\<open>v.update(e)\<close> for a dictionary \<open>e\<close>; the result is \<open>v\<close> after the call.\<close>

fun py_update :: "pyval \<Rightarrow> doc \<Rightarrow> error + pyval" where
  "py_update (PDict d) e = Inr (PDict (dict_update d e))"
| "py_update _ e = Inl AttributeError"

text \<open>\<^verbatim>\<open>v.setdefault(k, x)\<close>; the result is \<open>v\<close> after the call.\<close>

fun py_setdefault :: "pyval \<Rightarrow> string \<Rightarrow> pyval \<Rightarrow> error + pyval" where
  "py_setdefault (PDict d) k x = Inr (PDict (dict_setdefault d k x))"
| "py_setdefault _ k x = Inl AttributeError"

text \<open>
  One element of a sequence given to \<^verbatim>\<open>d.update\<close>: it must be iterable
  (\<^verbatim>\<open>TypeError\<close>) with exactly two items (\<^verbatim>\<open>ValueError\<close>), the key and the
  value. A list gives its two elements, a string its two characters, a dictionary its
  two keys. A key that is a list or a dictionary cannot be hashed (\<^verbatim>\<open>TypeError\<close>);
  any other key that is no string leaves the model.
\<close>

fun update_from_pair :: "doc \<Rightarrow> pyval \<Rightarrow> error + doc" where
  "update_from_pair d (PList [PStr k, v]) = Inr (dict_setitem d k v)"
| "update_from_pair d (PList [PList k, v]) = Inl TypeError"
| "update_from_pair d (PList [PDict k, v]) = Inl TypeError"
| "update_from_pair d (PList [k, v]) = Inl OutsideModel"
| "update_from_pair d (PList xs) = Inl ValueError"
| "update_from_pair d (PStr [a, b]) = Inr (dict_setitem d [a] (PStr [b]))"
| "update_from_pair d (PStr s) = Inl ValueError"
| "update_from_pair d (PDict [(k1, v1), (k2, v2)]) = Inr (dict_setitem d k1 (PStr k2))"
| "update_from_pair d (PDict e) = Inl ValueError"
| "update_from_pair d _ = Inl TypeError"

text \<open>The elements are taken in turn; the first exception ends the call.\<close>

fun update_from_pairs :: "doc \<Rightarrow> pyval list \<Rightarrow> error + doc" where
  "update_from_pairs d [] = Inr d"
| "update_from_pairs d (x # xs) =
     (case update_from_pair d x of Inl e \<Rightarrow> Inl e | Inr d' \<Rightarrow> update_from_pairs d' xs)"

text \<open>
  \<^verbatim>\<open>d.update(x)\<close> on a dictionary \<open>d\<close> with an arbitrary argument. A mapping is
  merged. A list is a sequence of key/value pairs, and so is a string, whose elements
  are its characters: the empty list and the empty string change nothing. Any other
  value cannot be iterated and raises \<^verbatim>\<open>TypeError\<close>.
\<close>

fun dict_update_arg :: "doc \<Rightarrow> pyval \<Rightarrow> error + doc" where
  "dict_update_arg d (PDict e) = Inr (dict_update d e)"
| "dict_update_arg d (PList xs) = update_from_pairs d xs"
| "dict_update_arg d (PStr s) = update_from_pairs d (map (\<lambda>c. PStr [c]) s)"
| "dict_update_arg d _ = Inl TypeError"

section \<open>The environment of the service\<close>

text \<open>
  Everything the service reaches outside this module is a field of the environment:
  the two preference registries of the \<^verbatim>\<open>superdesk\<close> package, the request context
  of the web framework, the Session Store and the User Store (a lookup returns a
  document or \<^verbatim>\<open>None\<close>), the Privilege Resolver and the builtin \<^verbatim>\<open>str\<close>.
\<close>

record env =
  default_user_preferences :: doc
  default_session_preferences :: doc
  view_args_id :: string
  g_user :: doc
  sessions_find_one :: "pyval \<Rightarrow> doc option"
  users_find_one :: "pyval \<Rightarrow> doc option"
  super_find_one :: "pyval \<Rightarrow> doc option"
  backend_find_one :: "pyval \<Rightarrow> doc option"
  get_role :: "doc \<Rightarrow> pyval"
  get_privileges :: "doc \<Rightarrow> pyval \<Rightarrow> pyval"
  get_privileged_actions :: "pyval \<Rightarrow> pyval"
  py_str :: "pyval \<Rightarrow> string"

section \<open>PreferencesService\<close>

subsection \<open>email_notification_is_enabled\<close>

text \<open>
  \<^verbatim>\<open>get_user_preference\<close> (lines 178-185) looks the user up and then calls
  \<^verbatim>\<open>self.enhance_document_with_default_user_prefs\<close>, a method the class does not
  have: the attribute lookup raises \<^verbatim>\<open>AttributeError\<close> whatever the user is.
\<close>

definition get_user_preference :: "env \<Rightarrow> pyval \<Rightarrow> error + pyval" where
  "get_user_preference E user_id =
     (let doc = users_find_one E user_id in Inl AttributeError)"

text \<open>
  Lines 187-194. \<^verbatim>\<open>send_email and send_email.get('enabled', False)\<close> is
  \<open>send_email\<close> itself when that is falsy.
\<close>

definition email_notification_is_enabled :: "env \<Rightarrow> pyval \<Rightarrow> pyval \<Rightarrow> error + pyval" where
  "email_notification_is_enabled E user_id preferences =
     (case (if truthy user_id then get_user_preference E user_id else Inr preferences) of
        Inl e \<Rightarrow> Inl e
      | Inr prefs \<Rightarrow>
          (let send_email =
                 (case prefs of
                    PDict d \<Rightarrow> dict_get d ''email:notification'' (PDict [])
                  | _ \<Rightarrow> PDict [])
           in if truthy send_email then py_get send_email ''enabled'' (PBool False)
              else Inr send_email))"

subsection \<open>Field names and state\<close>

text \<open>The module's constants \<^verbatim>\<open>_preferences_key\<close> ... \<^verbatim>\<open>_action_key\<close> (lines 22-26).\<close>

abbreviation preferences_key :: string where
  "preferences_key \<equiv> ''preferences''"

abbreviation user_preferences_key :: string where
  "user_preferences_key \<equiv> ''user_preferences''"

abbreviation session_preferences_key :: string where
  "session_preferences_key \<equiv> ''session_preferences''"

abbreviation privileges_key :: string where
  "privileges_key \<equiv> ''active_privileges''"

abbreviation action_key :: string where
  "action_key \<equiv> ''allowed_actions''"

text \<open>
  A call \<^verbatim>\<open>self.backend.update(self.datasource, id, updates, original)\<close> is recorded
  with its three arguments: the User Store changes through these calls only.
\<close>

type_synonym backend_call = "pyval \<times> doc \<times> doc"

text \<open>
  The state the hooks of a PATCH request work on: the two dictionaries handed to
  \<^verbatim>\<open>on_update\<close>, which it changes in place, and the calls made to the User Store so
  far (oldest first).
\<close>

record state =
  updates :: doc
  original :: doc
  backend_updates :: "backend_call list"

subsection \<open>Privileges\<close>

text \<open>
  Modelled from the spec: \<^verbatim>\<open>set_privileges\<close> of the users service, which is not among
  the sources. Sections 4.5 and 6 of the specification: the Privilege Resolver computes
  the privilege map of a user document and its role document and writes it into the
  document's \<^verbatim>\<open>active_privileges\<close>. The map itself is the environment's
  \<open>get_privileges\<close>.
\<close>

definition set_privileges :: "env \<Rightarrow> doc \<Rightarrow> pyval \<Rightarrow> doc" where
  "set_privileges E user_doc role_doc =
     dict_setitem user_doc privileges_key (get_privileges E user_doc role_doc)"

text \<open>Lines 174-176; the result is \<open>user_doc\<close> after the call.\<close>

definition enhance_document_with_user_privileges :: "env \<Rightarrow> doc \<Rightarrow> doc" where
  "enhance_document_with_user_privileges E user_doc =
     (let role_doc = get_role E user_doc in set_privileges E user_doc role_doc)"

subsection \<open>on_update\<close>

text \<open>
  The generator \<^verbatim>\<open>(k for k, v in prefs.items() if k not in registry)\<close> of lines 136
  and 145, as the list of the keys it yields.
\<close>

definition invalid_keys :: "doc \<Rightarrow> doc \<Rightarrow> string list" where
  "invalid_keys prefs registry = filter (\<lambda>k. map_of registry k = None) (map fst prefs)"

text \<open>The loop over it raises at the first key, and does nothing when there is none.\<close>

definition validate_keys :: "doc \<Rightarrow> doc \<Rightarrow> error + unit" where
  "validate_keys prefs registry =
     (case invalid_keys prefs registry of
        [] \<Rightarrow> Inr ()
      | k # _ \<Rightarrow> Inl (ValidationError (''Invalid preference: '' @ k)))"

text \<open>
  \<^verbatim>\<open>v[k].update(e)\<close> (line 148); the result is \<open>v\<close> after the call: the dictionary
  stored under \<open>k\<close> is changed in place, so every holder of it sees the merge.
\<close>

definition py_update_at :: "pyval \<Rightarrow> string \<Rightarrow> doc \<Rightarrow> error + pyval" where
  "py_update_at v k e =
     (case py_getitem v k of
        Inl err \<Rightarrow> Inl err
      | Inr entry \<Rightarrow>
          (case py_update entry e of
             Inl err \<Rightarrow> Inl err
           | Inr merged \<Rightarrow>
               (case v of
                  PDict d \<Rightarrow> Inr (PDict (dict_setitem d k merged))
                | _ \<Rightarrow> Inl TypeError)))"

text \<open>Lines 133-140, given the copy made in line 130.\<close>

definition merge_user_preferences :: "env \<Rightarrow> pyval \<Rightarrow> state \<Rightarrow> (error + unit) \<times> state" where
  "merge_user_preferences E existing_user_preferences s =
     (let user_prefs = dict_get (updates s) user_preferences_key PNone in
      if user_prefs \<noteq> PNone then
        (case py_items user_prefs of
           Inl e \<Rightarrow> (Inl e, s)
         | Inr items \<Rightarrow>
             (case validate_keys items (default_user_preferences E) of
                Inl e \<Rightarrow> (Inl e, s)
              | Inr _ \<Rightarrow>
                  (case py_update existing_user_preferences items of
                     Inl e \<Rightarrow> (Inl e, s)
                   | Inr merged \<Rightarrow>
                       (Inr (), s\<lparr>updates :=
                          dict_setitem (updates s) user_preferences_key merged\<rparr>))))
      else (Inr (), s))"

text \<open>
  Lines 142-149, given the copy made in line 131. The copy is shallow: the dictionary of
  the current session that line 148 merges into is the one \<open>original\<close> holds, so
  \<open>original\<close> sees the merge as well.
\<close>

definition merge_session_preferences :: "env \<Rightarrow> pyval \<Rightarrow> state \<Rightarrow> (error + unit) \<times> state" where
  "merge_session_preferences E existing_session_preferences s =
     (let session_id = view_args_id E;
          session_prefs = dict_get (updates s) session_preferences_key PNone in
      if session_prefs \<noteq> PNone then
        (case py_items session_prefs of
           Inl e \<Rightarrow> (Inl e, s)
         | Inr items \<Rightarrow>
             (case validate_keys items (default_session_preferences E) of
                Inl e \<Rightarrow> (Inl e, s)
              | Inr _ \<Rightarrow>
                  (case py_update_at existing_session_preferences session_id items of
                     Inl e \<Rightarrow> (Inl e, s)
                   | Inr merged \<Rightarrow>
                       (Inr (), s\<lparr>updates :=
                          dict_setitem (updates s) session_preferences_key merged,
                        original :=
                          dict_setitem (original s) session_preferences_key merged\<rparr>))))
      else (Inr (), s))"

text \<open>Lines 151-152: the privileges and the actions are stamped into \<open>updates\<close>.\<close>

definition stamp_privileges :: "env \<Rightarrow> state \<Rightarrow> (error + unit) \<times> state" where
  "stamp_privileges E s =
     (let s1 = s\<lparr>updates := enhance_document_with_user_privileges E (updates s)\<rparr> in
      case dict_getitem (updates s1) privileges_key of
        Inl e \<Rightarrow> (Inl e, s1)
      | Inr privileges \<Rightarrow>
          (Inr (), s1\<lparr>updates :=
             dict_setitem (updates s1) action_key (get_privileged_actions E privileges)\<rparr>))"

text \<open>
  Lines 130-149: the two copies, then the two merges. An exception leaves the state as
  it was when it was raised.
\<close>

definition merge_preferences :: "env \<Rightarrow> state \<Rightarrow> (error + unit) \<times> state" where
  "merge_preferences E s =
     (case py_copy (dict_get (original s) user_preferences_key (PDict [])) of
        Inl e \<Rightarrow> (Inl e, s)
      | Inr existing_user_preferences \<Rightarrow>
          (case py_copy (dict_get (original s) session_preferences_key (PDict [])) of
             Inl e \<Rightarrow> (Inl e, s)
           | Inr existing_session_preferences \<Rightarrow>
               (case merge_user_preferences E existing_user_preferences s of
                  (Inl e, s1) \<Rightarrow> (Inl e, s1)
                | (Inr _, s1) \<Rightarrow>
                    merge_session_preferences E existing_session_preferences s1)))"

text \<open>Lines 128-152. The function never calls the backend.\<close>

definition on_update :: "env \<Rightarrow> state \<Rightarrow> (error + unit) \<times> state" where
  "on_update E s =
     (case merge_preferences E s of
        (Inl e, s2) \<Rightarrow> (Inl e, s2)
      | (Inr _, s2) \<Rightarrow> stamp_privileges E s2)"

subsection \<open>update\<close>

text \<open>
  Lines 154-157. \<^verbatim>\<open>original\<close> is rebound to the document reloaded from the backend;
  subscripting \<^verbatim>\<open>None\<close> (no session, no user) raises \<^verbatim>\<open>TypeError\<close>.
\<close>

definition update :: "env \<Rightarrow> pyval \<Rightarrow> state \<Rightarrow> (error + unit) \<times> state" where
  "update E item_id s =
     (case dict_getitem (original s) ''_id'' of
        Inl e \<Rightarrow> (Inl e, s)
      | Inr oid \<Rightarrow>
          (case sessions_find_one E oid of
             None \<Rightarrow> (Inl TypeError, s)
           | Some session \<Rightarrow>
               (case dict_getitem session ''user'' of
                  Inl e \<Rightarrow> (Inl e, s)
                | Inr uid \<Rightarrow>
                    (case backend_find_one E uid of
                       None \<Rightarrow> (Inl TypeError, s)
                     | Some reloaded \<Rightarrow>
                         (case dict_getitem reloaded ''_id'' of
                            Inl e \<Rightarrow> (Inl e, s)
                          | Inr rid \<Rightarrow>
                              (Inr (), s\<lparr>backend_updates :=
                                 backend_updates s @ [(rid, updates s, reloaded)]\<rparr>))))))"

subsection \<open>set_session_based_prefs\<close>

text \<open>
  Lines 96-100: \<^verbatim>\<open>updates\<close> after line 100, for a user document that was found. A
  user without \<^verbatim>\<open>user_preferences\<close> gets the registry defaults, updated with the
  legacy \<^verbatim>\<open>preferences\<close>.
\<close>

definition seed_user_preferences :: "env \<Rightarrow> doc \<Rightarrow> error + doc" where
  "seed_user_preferences E user_doc =
     (if map_of user_doc user_preferences_key = None then
        (let orig_user_prefs = dict_get user_doc preferences_key (PDict []) in
         case dict_update_arg (default_user_preferences E) orig_user_prefs of
           Inl e \<Rightarrow> Inl e
         | Inr available \<Rightarrow> Inr (dict_setitem [] user_preferences_key (PDict available)))
      else Inr [])"

text \<open>Lines 103-105: \<^verbatim>\<open>available\<close>, the preferences a new session starts with.\<close>

definition session_defaults :: "env \<Rightarrow> doc \<Rightarrow> doc" where
  "session_defaults E user_doc =
     (let available = default_session_preferences E;
          desk = dict_get user_doc ''desk'' PNone
      in if dict_get available ''desk:last_worked'' PNone = PStr [] \<and> truthy desk
         then dict_setitem available ''desk:last_worked'' desk
         else available)"

text \<open>
  Lines 95-108: the result is \<^verbatim>\<open>updates\<close> and \<^verbatim>\<open>user_doc\<close> after line 108.
  \<^verbatim>\<open>session_prefs\<close> is the dictionary \<open>user_doc\<close> holds when it holds one, and
  \<^verbatim>\<open>setdefault\<close> changes it in place: \<open>user_doc\<close> then has the new entry too.
\<close>

definition seed_preferences :: "env \<Rightarrow> pyval \<Rightarrow> doc \<Rightarrow> error + doc \<times> doc" where
  "seed_preferences E session_id user_doc =
     (case seed_user_preferences E user_doc of
        Inl e \<Rightarrow> Inl e
      | Inr updates1 \<Rightarrow>
          (let session_prefs = dict_get user_doc session_preferences_key (PDict []);
               available = session_defaults E user_doc
           in case py_setdefault session_prefs (py_str E session_id) (PDict available) of
                Inl e \<Rightarrow> Inl e
              | Inr session_prefs' \<Rightarrow>
                  Inr (dict_setitem updates1 session_preferences_key session_prefs',
                       if map_of user_doc session_preferences_key = None then user_doc
                       else dict_setitem user_doc session_preferences_key session_prefs')))"

text \<open>
  Lines 93-113, on the list of backend calls made so far. When the user is not found,
  \<^verbatim>\<open>key not in None\<close> (line 96) raises \<^verbatim>\<open>TypeError\<close>.
\<close>

definition set_session_based_prefs ::
  "env \<Rightarrow> pyval \<Rightarrow> pyval \<Rightarrow> backend_call list \<Rightarrow> (error + unit) \<times> backend_call list" where
  "set_session_based_prefs E session_id user_id calls =
     (case users_find_one E user_id of
        None \<Rightarrow> (Inl TypeError, calls)
      | Some user_doc \<Rightarrow>
          (case seed_preferences E session_id user_doc of
             Inl e \<Rightarrow> (Inl e, calls)
           | Inr (updates2, user_doc') \<Rightarrow>
               (let updates3 = enhance_document_with_user_privileges E updates2 in
                case dict_getitem updates3 privileges_key of
                  Inl e \<Rightarrow> (Inl e, calls)
                | Inr privileges \<Rightarrow>
                    (Inr (), calls @ [(user_id,
                       dict_setitem updates3 action_key (get_privileged_actions E privileges),
                       user_doc')]))))"

subsection \<open>find_one and on_fetched_item\<close>

text \<open>
  \<^verbatim>\<open>f(x) if x else y\<close> for what a store lookup returns: \<^verbatim>\<open>None\<close> and the empty
  dictionary are falsy.
\<close>

fun if_found :: "doc option \<Rightarrow> (doc \<Rightarrow> 'a) \<Rightarrow> 'a \<Rightarrow> 'a" where
  "if_found (Some (p # d)) f y = f (p # d)"
| "if_found (Some []) f y = y"
| "if_found None f y = y"

text \<open>Lines 115-121, with the keyword arguments \<^verbatim>\<open>lookup\<close> as a dictionary.\<close>

definition find_one :: "env \<Rightarrow> doc \<Rightarrow> error + doc option" where
  "find_one E lookup =
     (case dict_getitem lookup ''_id'' of
        Inl e \<Rightarrow> Inl e
      | Inr lookup_id \<Rightarrow>
          (let session = sessions_find_one E lookup_id in
           case if_found session (\<lambda>sess. dict_getitem sess ''user'') (Inr lookup_id) of
             Inl e \<Rightarrow> Inl e
           | Inr uid \<Rightarrow>
               (let doc = super_find_one E uid in
                if_found doc
                  (\<lambda>d. case if_found session (\<lambda>sess. dict_getitem sess ''_id'') (Inr uid) of
                         Inl e \<Rightarrow> Inl e
                       | Inr new_id \<Rightarrow> Inr (Some (dict_setitem d ''_id'' new_id)))
                  (Inr doc))))"

text \<open>Lines 123-126; the result is \<open>doc\<close> after the call.\<close>

definition on_fetched_item :: "env \<Rightarrow> doc \<Rightarrow> error + doc" where
  "on_fetched_item E doc =
     (let session_id = view_args_id E in
      case py_getitem (dict_get doc session_preferences_key (PDict [])) session_id of
        Inl e \<Rightarrow> Inl e
      | Inr session_prefs \<Rightarrow> Inr (dict_setitem doc session_preferences_key session_prefs))"

subsection \<open>is_authorized\<close>

text \<open>
  Lines 196-209, with the keyword arguments as a dictionary. The left operand of
  \<^verbatim>\<open>==\<close> is evaluated first; \<^verbatim>\<open>session.get\<close> on \<^verbatim>\<open>None\<close> raises
  \<^verbatim>\<open>AttributeError\<close>.
\<close>

definition is_authorized :: "env \<Rightarrow> doc \<Rightarrow> error + bool" where
  "is_authorized E kwargs =
     (if dict_get kwargs ''user_id'' PNone = PNone then Inr False
      else
        (let session = sessions_find_one E (dict_get kwargs ''user_id'' PNone) in
         case dict_getitem (g_user E) ''_id'' of
           Inl e \<Rightarrow> Inl e
         | Inr caller_id \<Rightarrow>
             (case session of
                None \<Rightarrow> Inl AttributeError
              | Some sess \<Rightarrow>
                  Inr (py_str E caller_id = py_str E (dict_get sess ''user'' PNone)))))"

section \<open>The registrations of this module and an example installation\<close>

text \<open>
  Lines 56-88 register four user preferences and five session preferences. The two
  registries, when no other module has registered a preference, hold each definition
  under its key, in the order of the calls.
\<close>

definition registered_user_preferences :: doc where
  "registered_user_preferences =
     [(''feature:preview'',
         PDict [(''type'', PStr ''bool''), (''enabled'', PBool False), (''default'', PBool False),
                (''label'', PStr ''Enable Feature Preview''), (''category'', PStr ''feature'')]),
      (''archive:view'',
         PDict [(''type'', PStr ''string''), (''allowed'', PList [PStr ''mgrid'', PStr ''compact'']),
                (''view'', PStr ''mgrid''), (''default'', PStr ''mgrid''),
                (''label'', PStr ''Users archive view format''), (''category'', PStr ''archive'')]),
      (''editor:theme'',
         PDict [(''type'', PStr ''string''), (''theme'', PStr []),
                (''label'', PStr ''Users article edit screen editor theme''),
                (''category'', PStr ''editor'')]),
      (''workqueue:items'', PDict [(''items'', PList [])])]"

definition registered_session_preferences :: doc where
  "registered_session_preferences =
     [(''scratchpad:items'', PList []),
      (''desk:last_worked'', PStr []),
      (''desk:items'', PList []),
      (''stage:items'', PList []),
      (''pinned:items'', PList [])]"

text \<open>
  An installation to run the service on: user \<open>u1\<close>, migrated from the flat
  \<^verbatim>\<open>preferences\<close> and assigned to desk \<open>desk42\<close>, has no \<^verbatim>\<open>user_preferences\<close> yet;
  user \<open>u2\<close> has them and holds the two sessions \<open>s1\<close> and \<open>s2\<close>. Every user has the
  same privileges.
\<close>

definition example_user1 :: doc where
  "example_user1 =
     [(''_id'', PObjectId ''u1''),
      (''preferences'', PDict [(''archive:view'', PStr ''compact'')]),
      (''desk'', PStr ''desk42'')]"

definition example_user2 :: doc where
  "example_user2 =
     [(''_id'', PObjectId ''u2''),
      (''user_preferences'',
         PDict [(''archive:view'', PStr ''mgrid''), (''editor:theme'', PStr ''dark'')]),
      (''session_preferences'',
         PDict [(''s1'', PDict [(''desk:last_worked'', PStr ''desk1'')]),
                (''s2'', PDict [(''desk:last_worked'', PStr ''desk7'')])])]"

definition example_sessions :: "pyval \<Rightarrow> doc option" where
  "example_sessions i =
     (if i = PStr ''s1'' then Some [(''_id'', PStr ''s1''), (''user'', PObjectId ''u2'')]
      else if i = PStr ''s2'' then Some [(''_id'', PStr ''s2''), (''user'', PObjectId ''u2'')]
      else None)"

definition example_users :: "pyval \<Rightarrow> doc option" where
  "example_users i =
     (if i = PObjectId ''u1'' then Some example_user1
      else if i = PObjectId ''u2'' then Some example_user2
      else None)"

text \<open>
  The builtin \<^verbatim>\<open>str\<close> on the values of the model. A string is itself and an object
  id its hexadecimal text; every other value is printed as \<^verbatim>\<open>repr\<close> prints it.
  Characters are bytes: text outside ASCII is its UTF-8 encoding and is printed as it
  is.
\<close>

fun digits :: "nat \<Rightarrow> string" where
  "digits n =
     (if n < 10 then [char_of (48 + n)]
      else digits (n div 10) @ [char_of (48 + n mod 10)])"

declare digits.simps [simp del]

definition hex_digit :: "nat \<Rightarrow> char" where
  "hex_digit n = (if n < 10 then char_of (48 + n) else char_of (87 + n))"

text \<open>
  One character inside a string literal that is quoted with \<open>q\<close>: the backslash, the
  quote and the control characters are escaped.
\<close>

definition repr_char :: "char \<Rightarrow> char \<Rightarrow> string" where
  "repr_char q c =
     (if c = CHR 0x5C then [CHR 0x5C, CHR 0x5C]
      else if c = q then [CHR 0x5C, q]
      else if c = CHR 0x09 then [CHR 0x5C, CHR ''t'']
      else if c = CHR 0x0A then [CHR 0x5C, CHR ''n'']
      else if c = CHR 0x0D then [CHR 0x5C, CHR ''r'']
      else if (of_char c :: nat) < 32 \<or> (of_char c :: nat) = 127
        then [CHR 0x5C, CHR ''x'', hex_digit (of_char c div 16), hex_digit (of_char c mod 16)]
      else [c])"

text \<open>
  A string literal: in single quotes, unless the string has a single quote and no double
  quote.
\<close>

definition repr_str :: "string \<Rightarrow> string" where
  "repr_str s =
     (let q = (if CHR 0x27 \<in> set s \<and> CHR 0x22 \<notin> set s then CHR 0x22 else CHR 0x27)
      in q # concat (map (repr_char q) s) @ [q])"

fun join_comma :: "string list \<Rightarrow> string" where
  "join_comma [] = []"
| "join_comma [x] = x"
| "join_comma (x # y # ys) = x @ '', '' @ join_comma (y # ys)"

fun py_repr :: "pyval \<Rightarrow> string" where
  "py_repr PNone = ''None''"
| "py_repr (PBool b) = (if b then ''True'' else ''False'')"
| "py_repr (PInt i) = (if i < 0 then ''-'' @ digits (nat (- i)) else digits (nat i))"
| "py_repr (PStr s) = repr_str s"
| "py_repr (PObjectId h) = ''ObjectId('' @ repr_str h @ '')''"
| "py_repr (PList xs) = ''['' @ join_comma (map py_repr xs) @ '']''"
| "py_repr (PDict d) =
     ''{'' @ join_comma (map (\<lambda>(k, v). repr_str k @ '': '' @ py_repr v) d) @ ''}''"

fun example_str :: "pyval \<Rightarrow> string" where
  "example_str (PStr s) = s"
| "example_str (PObjectId h) = h"
| "example_str v = py_repr v"

definition example_env :: env where
  "example_env =
     \<lparr>default_user_preferences = registered_user_preferences,
      default_session_preferences = registered_session_preferences,
      view_args_id = ''s1'',
      g_user = [(''_id'', PObjectId ''u2'')],
      sessions_find_one = example_sessions,
      users_find_one = example_users,
      super_find_one = example_users,
      backend_find_one = example_users,
      get_role = (\<lambda>user_doc. dict_get user_doc ''role'' PNone),
      get_privileges = (\<lambda>user_doc role_doc. PDict [(''archive'', PInt 1)]),
      get_privileged_actions = (\<lambda>privileges. PList [PStr ''publish'']),
      py_str = example_str\<rparr>"

text \<open>A PATCH of the second user's preferences with a key no module has registered.\<close>

definition example_patch :: state where
  "example_patch =
     \<lparr>updates = [(''user_preferences'', PDict [(''unknown:key'', PBool True)])],
      original = example_user2,
      backend_updates = []\<rparr>"

text \<open>
  A PATCH in session \<open>s1\<close> that sets one user preference and one session preference,
  and tries to set the privileges and the actions too.
\<close>

definition example_update :: state where
  "example_update =
     \<lparr>updates =
        [(''user_preferences'', PDict [(''archive:view'', PStr ''compact'')]),
         (''session_preferences'', PDict [(''desk:last_worked'', PStr ''desk9'')]),
         (''active_privileges'', PDict [(''users'', PInt 1)]),
         (''allowed_actions'', PList [PStr ''spike''])],
      original = example_user2,
      backend_updates = []\<rparr>"









section \<open>Well-formed documents\<close>

text \<open>
  The data model of the specification makes \<^verbatim>\<open>preferences\<close>, \<^verbatim>\<open>user_preferences\<close> and
  \<^verbatim>\<open>session_preferences\<close> mappings. The theorems say where they need that.
\<close>

fun is_dict :: "pyval \<Rightarrow> bool" where
  "is_dict (PDict d) = True"
| "is_dict _ = False"

section \<open>Facts about dictionaries\<close>

lemma is_dictE: "is_dict v \<Longrightarrow> (\<And>d. v = PDict d \<Longrightarrow> P) \<Longrightarrow> P"
  by (cases v) auto

lemma map_of_dict_setitem:
  "map_of (dict_setitem d k v) k' = (if k' = k then Some v else map_of d k')"
  by (induction d k v rule: dict_setitem.induct) auto

lemma dict_setitem_same: "map_of d k = Some v \<Longrightarrow> dict_setitem d k v = d"
  by (induction d k v rule: dict_setitem.induct) (auto split: if_splits)

lemma map_of_fold_setitem:
  "distinct (map fst e) \<Longrightarrow>
   map_of (fold (\<lambda>(k, v) acc. dict_setitem acc k v) e d) k =
     (case map_of e k of Some v \<Rightarrow> Some v | None \<Rightarrow> map_of d k)"
proof (induction e arbitrary: d)
  case Nil
  then show ?case by simp
next
  case (Cons p e)
  obtain k0 v0 where p: "p = (k0, v0)" by (cases p)
  from Cons.prems p have notin: "k0 \<notin> fst ` set e" and dist: "distinct (map fst e)"
    by auto
  from notin have none: "map_of e k0 = None"
    by (simp add: map_of_eq_None_iff)
  show ?case
    using Cons.IH [OF dist, of "dict_setitem d k0 v0"] none
    by (auto simp: p map_of_dict_setitem split: option.splits)
qed

lemma map_of_dict_update:
  "distinct (map fst e) \<Longrightarrow>
   map_of (dict_update d e) k = (case map_of e k of Some v \<Rightarrow> Some v | None \<Rightarrow> map_of d k)"
  unfolding dict_update_def by (rule map_of_fold_setitem)

lemma invalid_keys_Nil_iff:
  "invalid_keys prefs registry = [] \<longleftrightarrow> fst ` set prefs \<subseteq> fst ` set registry"
  by (auto simp: invalid_keys_def filter_empty_conv map_of_eq_None_iff)

lemma invalid_keys_hd:
  assumes "invalid_keys prefs registry = k # ks"
  shows "k \<in> fst ` set prefs" and "k \<notin> fst ` set registry"
proof -
  have "k \<in> set (invalid_keys prefs registry)" using assms by simp
  then show "k \<in> fst ` set prefs" and "k \<notin> fst ` set registry"
    by (auto simp: invalid_keys_def map_of_eq_None_iff)
qed

lemma py_get_truthy:
  "py_get x k (PBool False) = Inr v \<Longrightarrow> truthy v \<Longrightarrow>
   \<exists>se. x = PDict se \<and> map_of se k = Some v"
  by (cases x) (auto simp: dict_get_def split: option.splits)

lemma py_update_at_success:
  assumes "py_update_at v k e = Inr m"
  obtains d entry where "v = PDict d" and "map_of d k = Some (PDict entry)"
    and "m = PDict (dict_setitem d k (PDict (dict_update entry e)))"
proof (cases v)
  case (PDict d)
  with assms obtain x where x: "map_of d k = Some x"
    by (auto simp: py_update_at_def dict_getitem_def split: option.splits)
  with assms PDict obtain entry where "x = PDict entry"
    by (cases x) (auto simp: py_update_at_def dict_getitem_def)
  with assms PDict x that show ?thesis
    by (auto simp: py_update_at_def dict_getitem_def)
qed (use assms in \<open>auto simp: py_update_at_def\<close>)

lemma if_found_nonempty: "d \<noteq> [] \<Longrightarrow> if_found (Some d) f y = f d"
  by (cases d) simp_all

section \<open>The steps of on_update\<close>

lemma stamp_privileges_eq:
  "stamp_privileges E s =
     (Inr (), s\<lparr>updates :=
        dict_setitem
          (dict_setitem (updates s) privileges_key
             (get_privileges E (updates s) (get_role E (updates s))))
          action_key
          (get_privileged_actions E (get_privileges E (updates s) (get_role E (updates s))))\<rparr>)"
  by (simp add: stamp_privileges_def enhance_document_with_user_privileges_def
      set_privileges_def dict_getitem_def map_of_dict_setitem Let_def)

lemma on_update_success:
  assumes "on_update E s = (Inr (), s')"
  obtains s2 where "merge_preferences E s = (Inr (), s2)"
    and "stamp_privileges E s2 = (Inr (), s')"
  using assms by (auto simp: on_update_def split: prod.splits sum.splits)

lemma merge_preferences_success:
  assumes "merge_preferences E s = (Inr (), s2)"
  obtains eu es s1 where
    "py_copy (dict_get (original s) user_preferences_key (PDict [])) = Inr eu"
    "py_copy (dict_get (original s) session_preferences_key (PDict [])) = Inr es"
    "merge_user_preferences E eu s = (Inr (), s1)"
    "merge_session_preferences E es s1 = (Inr (), s2)"
  using assms by (auto simp: merge_preferences_def split: prod.splits sum.splits)

lemma merge_user_preferences_valid:
  assumes "dict_get (updates s) user_preferences_key PNone = PDict user_prefs"
    and "fst ` set user_prefs \<subseteq> fst ` set (default_user_preferences E)"
  shows "merge_user_preferences E (PDict existing) s =
           (Inr (), s\<lparr>updates := dict_setitem (updates s) user_preferences_key
                                   (PDict (dict_update existing user_prefs))\<rparr>)"
  using assms
  by (simp add: merge_user_preferences_def validate_keys_def invalid_keys_Nil_iff [symmetric])

lemma merge_user_preferences_frame:
  assumes "merge_user_preferences E eu s = (r, s1)"
  shows "original s1 = original s" and "backend_updates s1 = backend_updates s"
    and "k \<noteq> user_preferences_key \<Longrightarrow> map_of (updates s1) k = map_of (updates s) k"
  using assms
  by (auto simp: merge_user_preferences_def Let_def map_of_dict_setitem
      split: if_splits sum.splits)

lemma merge_session_preferences_frame:
  assumes "merge_session_preferences E es s1 = (r, s2)"
  shows "backend_updates s2 = backend_updates s1"
    and "k \<noteq> session_preferences_key \<Longrightarrow> map_of (updates s2) k = map_of (updates s1) k"
    and "k \<noteq> session_preferences_key \<Longrightarrow> map_of (original s2) k = map_of (original s1) k"
  using assms
  by (auto simp: merge_session_preferences_def Let_def map_of_dict_setitem
      split: if_splits sum.splits)

lemma merge_session_preferences_success:
  assumes sp: "dict_get (updates s1) session_preferences_key PNone = PDict session_prefs"
    and ok: "merge_session_preferences E (PDict existing) s1 = (Inr (), s2)"
  obtains entry where "map_of existing (view_args_id E) = Some (PDict entry)"
    and "s2 = s1\<lparr>updates := dict_setitem (updates s1) session_preferences_key
                   (PDict (dict_setitem existing (view_args_id E)
                      (PDict (dict_update entry session_prefs)))),
                 original := dict_setitem (original s1) session_preferences_key
                   (PDict (dict_setitem existing (view_args_id E)
                      (PDict (dict_update entry session_prefs))))\<rparr>"
proof -
  from ok sp obtain m where
    m: "py_update_at (PDict existing) (view_args_id E) session_prefs = Inr m"
    and s2: "s2 = s1\<lparr>updates := dict_setitem (updates s1) session_preferences_key m,
                     original := dict_setitem (original s1) session_preferences_key m\<rparr>"
    by (auto simp: merge_session_preferences_def Let_def split: sum.splits)
  from m obtain d entry where "PDict existing = PDict d"
    and "map_of d (view_args_id E) = Some (PDict entry)"
    and "m = PDict (dict_setitem d (view_args_id E) (PDict (dict_update entry session_prefs)))"
    by (rule py_update_at_success)
  with s2 that show ?thesis by simp
qed


section \<open>The steps of set_session_based_prefs\<close>

lemma session_defaults_lookup:
  "map_of (session_defaults E user_doc) k =
     (if k = ''desk:last_worked'' \<and>
         map_of (default_session_preferences E) k = Some (PStr []) \<and>
         truthy (dict_get user_doc ''desk'' PNone)
      then Some (dict_get user_doc ''desk'' PNone)
      else map_of (default_session_preferences E) k)"
proof (cases "map_of (default_session_preferences E) ''desk:last_worked''")
  case None
  then show ?thesis
    by (auto simp: session_defaults_def Let_def dict_get_def [of "default_session_preferences E"])
next
  case (Some x)
  then show ?thesis
    by (auto simp: session_defaults_def Let_def dict_get_def [of "default_session_preferences E"]
        map_of_dict_setitem)
qed

lemma set_session_based_prefs_seeded:
  assumes "users_find_one E user_id = Some user_doc"
    and "seed_preferences E session_id user_doc = Inr (u, user_doc')"
  shows "set_session_based_prefs E session_id user_id calls =
           (Inr (), calls @ [(user_id,
              dict_setitem
                (dict_setitem u privileges_key (get_privileges E u (get_role E u)))
                action_key (get_privileged_actions E (get_privileges E u (get_role E u))),
              user_doc')])"
  using assms
  by (simp add: set_session_based_prefs_def enhance_document_with_user_privileges_def
      set_privileges_def dict_getitem_def map_of_dict_setitem Let_def)




section \<open>The example installation at work\<close>

lemmas on_update_defs =
  on_update_def merge_preferences_def merge_user_preferences_def
  merge_session_preferences_def stamp_privileges_def validate_keys_def invalid_keys_def
  py_update_at_def enhance_document_with_user_privileges_def set_privileges_def
  dict_get_def dict_getitem_def dict_update_def Let_def

lemmas example_defs =
  example_env_def example_update_def example_user1_def example_user2_def
  example_users_def example_sessions_def
  registered_user_preferences_def registered_session_preferences_def

lemmas session_defs =
  set_session_based_prefs_def seed_preferences_def seed_user_preferences_def
  session_defaults_def dict_setdefault_def
  enhance_document_with_user_privileges_def set_privileges_def
  dict_get_def dict_getitem_def dict_update_def Let_def


text \<open>The update is accepted; privileges and actions are the resolver's.\<close>

lemma example_update_result:
  "on_update example_env example_update =
     (Inr (),
      \<lparr>updates =
         [(''user_preferences'',
             PDict [(''archive:view'', PStr ''compact''), (''editor:theme'', PStr ''dark'')]),
          (''session_preferences'',
             PDict [(''s1'', PDict [(''desk:last_worked'', PStr ''desk9'')]),
                    (''s2'', PDict [(''desk:last_worked'', PStr ''desk7'')])]),
          (''active_privileges'', PDict [(''archive'', PInt 1)]),
          (''allowed_actions'', PList [PStr ''publish''])],
       original =
         [(''_id'', PObjectId ''u2''),
          (''user_preferences'',
             PDict [(''archive:view'', PStr ''mgrid''), (''editor:theme'', PStr ''dark'')]),
          (''session_preferences'',
             PDict [(''s1'', PDict [(''desk:last_worked'', PStr ''desk9'')]),
                    (''s2'', PDict [(''desk:last_worked'', PStr ''desk7'')])])],
       backend_updates = []\<rparr>)"
  by (simp add: on_update_defs example_defs)

text \<open>The first session of user \<open>u1\<close> is initialized as session \<open>s3\<close>.\<close>

lemma example_session_result:
  "set_session_based_prefs example_env (PStr ''s3'') (PObjectId ''u1'') [] =
     (Inr (),
      [(PObjectId ''u1'',
        [(''user_preferences'',
            PDict [(''feature:preview'',
                      PDict [(''type'', PStr ''bool''), (''enabled'', PBool False),
                             (''default'', PBool False),
                             (''label'', PStr ''Enable Feature Preview''),
                             (''category'', PStr ''feature'')]),
                   (''archive:view'', PStr ''compact''),
                   (''editor:theme'',
                      PDict [(''type'', PStr ''string''), (''theme'', PStr []),
                             (''label'', PStr ''Users article edit screen editor theme''),
                             (''category'', PStr ''editor'')]),
                   (''workqueue:items'', PDict [(''items'', PList [])])]),
         (''session_preferences'',
            PDict [(''s3'',
                      PDict [(''scratchpad:items'', PList []),
                             (''desk:last_worked'', PStr ''desk42''),
                             (''desk:items'', PList []),
                             (''stage:items'', PList []),
                             (''pinned:items'', PList [])])]),
         (''active_privileges'', PDict [(''archive'', PInt 1)]),
         (''allowed_actions'', PList [PStr ''publish''])],
        example_user1)])"
  by (simp add: session_defs example_defs)



section \<open>Rejected updates\<close>

text \<open>
  Claim C1. When the \<^verbatim>\<open>user_preferences\<close> of an update is a map with at least one key
  that is not in the user-preference registry, \<open>on_update\<close> raises the validation error
  \<^verbatim>\<open>Invalid preference: k\<close> for such a key \<open>k\<close> of the update, and nothing has been
  merged: the two documents in memory and the calls made to the User Store are what
  they were. The stored document's two preference fields are taken to be maps, as the
  data model has them.
\<close>

theorem on_update_rejects_unregistered_user_preference:
  assumes up: "dict_get (updates s) user_preferences_key PNone = PDict user_prefs"
    and bad: "\<not> fst ` set user_prefs \<subseteq> fst ` set (default_user_preferences E)"
    and ou: "is_dict (dict_get (original s) user_preferences_key (PDict []))"
    and os: "is_dict (dict_get (original s) session_preferences_key (PDict []))"
  shows "\<exists>k. k \<in> fst ` set user_prefs \<and> k \<notin> fst ` set (default_user_preferences E) \<and>
           on_update E s = (Inl (ValidationError (''Invalid preference: '' @ k)), s)"
proof -
  from bad obtain k ks where inv: "invalid_keys user_prefs (default_user_preferences E) = k # ks"
    by (cases "invalid_keys user_prefs (default_user_preferences E)")
       (auto simp: invalid_keys_Nil_iff)
  from ou obtain eu where eu: "dict_get (original s) user_preferences_key (PDict []) = PDict eu"
    by (rule is_dictE)
  from os obtain es where es: "dict_get (original s) session_preferences_key (PDict []) = PDict es"
    by (rule is_dictE)
  have "merge_user_preferences E (PDict eu) s =
          (Inl (ValidationError (''Invalid preference: '' @ k)), s)"
    by (simp add: merge_user_preferences_def up validate_keys_def inv)
  then have "on_update E s = (Inl (ValidationError (''Invalid preference: '' @ k)), s)"
    by (simp add: on_update_def merge_preferences_def eu es)
  with invalid_keys_hd [OF inv] show ?thesis by blast
qed

text \<open>The scenario of the specification: a PATCH with \<^verbatim>\<open>{"unknown:key": true}\<close>.\<close>

theorem on_update_rejects_unregistered_user_preference_witness:
  "on_update example_env example_patch =
     (Inl (ValidationError ''Invalid preference: unknown:key''), example_patch)"
  using on_update_rejects_unregistered_user_preference
          [of example_patch "[(''unknown:key'', PBool True)]" example_env]
  by (simp add: example_patch_def example_env_def example_user2_def dict_get_def
      registered_user_preferences_def)

section \<open>Accepted updates\<close>

text \<open>
  Claim C3. When the \<^verbatim>\<open>user_preferences\<close> of an update is a map with registered keys
  only, the merge step of \<open>on_update\<close> always succeeds and puts the existing user
  preference map, updated key by key with the map of the update, into \<open>updates\<close>; an
  \<open>on_update\<close> that returns hands that map on. In it every key of the update has the
  new value and every other key the value it had.
\<close>

theorem on_update_merges_user_preferences:
  assumes up: "dict_get (updates s) user_preferences_key PNone = PDict user_prefs"
    and valid: "fst ` set user_prefs \<subseteq> fst ` set (default_user_preferences E)"
    and dist: "distinct (map fst user_prefs)"
    and ex: "dict_get (original s) user_preferences_key (PDict []) = PDict existing"
  shows "merge_user_preferences E (PDict existing) s =
           (Inr (), s\<lparr>updates := dict_setitem (updates s) user_preferences_key
                                   (PDict (dict_update existing user_prefs))\<rparr>) \<and>
         (\<forall>s'. on_update E s = (Inr (), s') \<longrightarrow>
            map_of (updates s') user_preferences_key =
              Some (PDict (dict_update existing user_prefs))) \<and>
         (\<forall>k. map_of (dict_update existing user_prefs) k =
                (case map_of user_prefs k of Some v \<Rightarrow> Some v | None \<Rightarrow> map_of existing k))"
proof (intro conjI allI impI)
  show step: "merge_user_preferences E (PDict existing) s =
           (Inr (), s\<lparr>updates := dict_setitem (updates s) user_preferences_key
                                   (PDict (dict_update existing user_prefs))\<rparr>)"
    by (rule merge_user_preferences_valid [OF up valid])
  show "map_of (dict_update existing user_prefs) k =
          (case map_of user_prefs k of Some v \<Rightarrow> Some v | None \<Rightarrow> map_of existing k)" for k
    by (rule map_of_dict_update [OF dist])
  fix s'
  assume ok: "on_update E s = (Inr (), s')"
  from ok obtain s2 where mp: "merge_preferences E s = (Inr (), s2)"
    and st: "stamp_privileges E s2 = (Inr (), s')"
    by (rule on_update_success)
  from mp obtain eu es s1 where
    eu: "py_copy (dict_get (original s) user_preferences_key (PDict [])) = Inr eu"
    and mu: "merge_user_preferences E eu s = (Inr (), s1)"
    and ms: "merge_session_preferences E es s1 = (Inr (), s2)"
    by (rule merge_preferences_success)
  from eu ex have "eu = PDict existing" by simp
  with mu step
  have "map_of (updates s1) user_preferences_key = Some (PDict (dict_update existing user_prefs))"
    by (auto simp: map_of_dict_setitem)
  with merge_session_preferences_frame(2) [OF ms, of user_preferences_key]
  have "map_of (updates s2) user_preferences_key = Some (PDict (dict_update existing user_prefs))"
    by simp
  with st show "map_of (updates s') user_preferences_key =
      Some (PDict (dict_update existing user_prefs))"
    by (auto simp: stamp_privileges_eq map_of_dict_setitem)
qed

theorem on_update_merges_user_preferences_witness:
  "fst (on_update example_env example_update) = Inr () \<and>
   map_of (updates (snd (on_update example_env example_update))) user_preferences_key =
     Some (PDict [(''archive:view'', PStr ''compact''), (''editor:theme'', PStr ''dark'')])"
  using on_update_merges_user_preferences
          [of example_update "[(''archive:view'', PStr ''compact'')]" example_env
              "[(''archive:view'', PStr ''mgrid''), (''editor:theme'', PStr ''dark'')]"]
  by (simp add: example_update_result)

text \<open>
  Claim C4. When an update carries a \<^verbatim>\<open>session_preferences\<close> map and \<open>on_update\<close>
  returns, the stored map of session preferences has an entry for the current session,
  the session id of the request; that entry alone is merged with the update, in
  \<open>updates\<close> and, through the shared dictionary, in \<open>original\<close>. The entry of any
  other session \<open>B\<close> is what it was.
\<close>

theorem on_update_keeps_other_sessions:
  assumes sp: "dict_get (updates s) session_preferences_key PNone = PDict session_prefs"
    and ex: "dict_get (original s) session_preferences_key (PDict []) = PDict existing"
    and ne: "B \<noteq> view_args_id E"
    and ok: "on_update E s = (Inr (), s')"
  shows "\<exists>entry merged.
           map_of existing (view_args_id E) = Some (PDict entry) \<and>
           merged = dict_setitem existing (view_args_id E)
                      (PDict (dict_update entry session_prefs)) \<and>
           map_of (updates s') session_preferences_key = Some (PDict merged) \<and>
           map_of (original s') session_preferences_key = Some (PDict merged) \<and>
           map_of merged B = map_of existing B"
proof -
  from ok obtain s2 where mp: "merge_preferences E s = (Inr (), s2)"
    and st: "stamp_privileges E s2 = (Inr (), s')"
    by (rule on_update_success)
  from mp obtain eu es s1 where
    es: "py_copy (dict_get (original s) session_preferences_key (PDict [])) = Inr es"
    and mu: "merge_user_preferences E eu s = (Inr (), s1)"
    and ms: "merge_session_preferences E es s1 = (Inr (), s2)"
    by (rule merge_preferences_success)
  from es ex have es': "es = PDict existing" by simp
  from merge_user_preferences_frame(3) [OF mu, of session_preferences_key] sp
  have sp1: "dict_get (updates s1) session_preferences_key PNone = PDict session_prefs"
    by (simp add: dict_get_def)
  from ms es' have "merge_session_preferences E (PDict existing) s1 = (Inr (), s2)" by simp
  from merge_session_preferences_success [OF sp1 this]
  obtain entry where entry: "map_of existing (view_args_id E) = Some (PDict entry)"
    and s2: "s2 = s1\<lparr>updates := dict_setitem (updates s1) session_preferences_key
                   (PDict (dict_setitem existing (view_args_id E)
                      (PDict (dict_update entry session_prefs)))),
                 original := dict_setitem (original s1) session_preferences_key
                   (PDict (dict_setitem existing (view_args_id E)
                      (PDict (dict_update entry session_prefs))))\<rparr>"
    by blast
  let ?merged = "dict_setitem existing (view_args_id E) (PDict (dict_update entry session_prefs))"
  from st s2 have "map_of (updates s') session_preferences_key = Some (PDict ?merged)"
    and "map_of (original s') session_preferences_key = Some (PDict ?merged)"
    by (auto simp: stamp_privileges_eq map_of_dict_setitem)
  moreover from ne have "map_of ?merged B = map_of existing B"
    by (simp add: map_of_dict_setitem)
  ultimately show ?thesis using entry by blast
qed

theorem on_update_keeps_other_sessions_witness:
  "fst (on_update example_env example_update) = Inr () \<and>
   dict_get (original example_update) session_preferences_key (PDict []) =
     PDict [(''s1'', PDict [(''desk:last_worked'', PStr ''desk1'')]),
            (''s2'', PDict [(''desk:last_worked'', PStr ''desk7'')])] \<and>
   map_of (updates (snd (on_update example_env example_update))) session_preferences_key =
     Some (PDict [(''s1'', PDict [(''desk:last_worked'', PStr ''desk9'')]),
                  (''s2'', PDict [(''desk:last_worked'', PStr ''desk7'')])])"
  using on_update_keeps_other_sessions
          [of example_update "[(''desk:last_worked'', PStr ''desk9'')]"
              "[(''s1'', PDict [(''desk:last_worked'', PStr ''desk1'')]),
                (''s2'', PDict [(''desk:last_worked'', PStr ''desk7'')])]"
              "''s2''" example_env "snd (on_update example_env example_update)"]
  by (simp add: example_update_result) (simp add: example_defs dict_get_def)

section \<open>Privileges and actions\<close>




section \<open>Session initialization\<close>

text \<open>
  Claim C5. For a user document without \<^verbatim>\<open>user_preferences\<close>, whose legacy
  \<^verbatim>\<open>preferences\<close> are absent or a map, \<open>set_session_based_prefs\<close> returns and hands
  the User Store an update whose \<^verbatim>\<open>user_preferences\<close> are the registry defaults
  updated with the legacy map: a key of the legacy map has the legacy value, every
  other registered key its registry default.
\<close>

theorem set_session_based_prefs_seeds_user_preferences:
  assumes found: "users_find_one E user_id = Some user_doc"
    and fresh: "map_of user_doc user_preferences_key = None"
    and legacy: "dict_get user_doc preferences_key (PDict []) = PDict legacy"
    and dist: "distinct (map fst legacy)"
    and sp: "is_dict (dict_get user_doc session_preferences_key (PDict []))"
  shows "\<exists>upd user_doc'.
           set_session_based_prefs E session_id user_id calls =
             (Inr (), calls @ [(user_id, upd, user_doc')]) \<and>
           map_of upd user_preferences_key =
             Some (PDict (dict_update (default_user_preferences E) legacy)) \<and>
           (\<forall>k. map_of (dict_update (default_user_preferences E) legacy) k =
                  (case map_of legacy k of
                     Some v \<Rightarrow> Some v
                   | None \<Rightarrow> map_of (default_user_preferences E) k))"
proof -
  from sp obtain d where d: "dict_get user_doc session_preferences_key (PDict []) = PDict d"
    by (rule is_dictE)
  from fresh legacy have su: "seed_user_preferences E user_doc =
      Inr (dict_setitem [] user_preferences_key
             (PDict (dict_update (default_user_preferences E) legacy)))"
    by (simp add: seed_user_preferences_def)
  from su d obtain u user_doc' where
    sd: "seed_preferences E session_id user_doc = Inr (u, user_doc')"
    and u: "map_of u user_preferences_key =
              Some (PDict (dict_update (default_user_preferences E) legacy))"
    by (simp add: seed_preferences_def Let_def map_of_dict_setitem)
  from set_session_based_prefs_seeded [OF found sd, of calls] u
    map_of_dict_update [OF dist, of "default_user_preferences E"]
  show ?thesis
    by (auto simp: map_of_dict_setitem)
qed

theorem set_session_based_prefs_seeds_user_preferences_witness:
  "example_users (PObjectId ''u1'') = Some example_user1 \<and>
   map_of example_user1 user_preferences_key = None \<and>
   fst (set_session_based_prefs example_env (PStr ''s3'') (PObjectId ''u1'') []) = Inr () \<and>
   (\<exists>seeded. map_of (fst (snd (hd (snd
        (set_session_based_prefs example_env (PStr ''s3'') (PObjectId ''u1'') [])))))
        user_preferences_key = Some (PDict seeded) \<and>
      map_of seeded ''archive:view'' = Some (PStr ''compact'') \<and>
      map_of seeded ''workqueue:items'' = Some (PDict [(''items'', PList [])]))"
  using set_session_based_prefs_seeds_user_preferences
          [of example_env "PObjectId ''u1''" example_user1
              "[(''archive:view'', PStr ''compact'')]" "PStr ''s3''" "[]"]
  by (simp add: example_session_result) (simp add: example_defs dict_get_def)

text \<open>
  Claim C6. \<open>set_session_based_prefs\<close> returns and hands the User Store an update whose
  \<^verbatim>\<open>session_preferences\<close> are those of the user document, where: when there was no
  entry for \<^verbatim>\<open>str(session_id)\<close>, the entry is the session registry's defaults, with
  \<^verbatim>\<open>desk:last_worked\<close> replaced by the user's desk when the default is the empty
  string and the user's \<^verbatim>\<open>desk\<close> is truthy; when there was an entry, nothing has
  changed; and the entries of other sessions are what they were.
\<close>

theorem set_session_based_prefs_seeds_session:
  assumes found: "users_find_one E user_id = Some user_doc"
    and sp: "dict_get user_doc session_preferences_key (PDict []) = PDict session_prefs"
    and up: "map_of user_doc user_preferences_key = None \<Longrightarrow>
               is_dict (dict_get user_doc preferences_key (PDict []))"
  shows "\<exists>upd user_doc' session_prefs'.
           set_session_based_prefs E session_id user_id calls =
             (Inr (), calls @ [(user_id, upd, user_doc')]) \<and>
           map_of upd session_preferences_key = Some (PDict session_prefs') \<and>
           (map_of session_prefs (py_str E session_id) = None \<longrightarrow>
              (\<exists>seeded. map_of session_prefs' (py_str E session_id) = Some (PDict seeded) \<and>
                 (\<forall>k. map_of seeded k =
                    (if k = ''desk:last_worked'' \<and>
                        map_of (default_session_preferences E) k = Some (PStr []) \<and>
                        truthy (dict_get user_doc ''desk'' PNone)
                     then Some (dict_get user_doc ''desk'' PNone)
                     else map_of (default_session_preferences E) k)))) \<and>
           (map_of session_prefs (py_str E session_id) \<noteq> None \<longrightarrow>
              session_prefs' = session_prefs) \<and>
           (\<forall>k. k \<noteq> py_str E session_id \<longrightarrow>
              map_of session_prefs' k = map_of session_prefs k)"
proof -
  let ?sid = "py_str E session_id"
  let ?desk = "dict_get user_doc ''desk'' PNone"
  let ?reg = "default_session_preferences E"
  let ?available = "session_defaults E user_doc"
  let ?sp' = "dict_setdefault session_prefs ?sid (PDict ?available)"
  let ?ud' = "if map_of user_doc session_preferences_key = None then user_doc
              else dict_setitem user_doc session_preferences_key (PDict ?sp')"
  have "\<exists>updates1. seed_user_preferences E user_doc = Inr updates1"
  proof (cases "map_of user_doc user_preferences_key = None")
    case True
    from up [OF True] obtain d where "dict_get user_doc preferences_key (PDict []) = PDict d"
      by (rule is_dictE)
    with True show ?thesis by (simp add: seed_user_preferences_def)
  next
    case False
    then show ?thesis by (auto simp: seed_user_preferences_def)
  qed
  then obtain updates1 where su: "seed_user_preferences E user_doc = Inr updates1"
    by (rule exE)
  have sd: "seed_preferences E session_id user_doc =
           Inr (dict_setitem updates1 session_preferences_key (PDict ?sp'), ?ud')"
    by (simp add: seed_preferences_def su sp)
  have avail: "map_of ?available k =
      (if k = ''desk:last_worked'' \<and> map_of ?reg k = Some (PStr []) \<and> truthy ?desk
       then Some ?desk else map_of ?reg k)" for k
    by (rule session_defaults_lookup)
  have a: "map_of session_prefs ?sid = None \<longrightarrow>
      (\<exists>seeded. map_of ?sp' ?sid = Some (PDict seeded) \<and>
         (\<forall>k. map_of seeded k =
            (if k = ''desk:last_worked'' \<and> map_of ?reg k = Some (PStr []) \<and> truthy ?desk
             then Some ?desk else map_of ?reg k)))"
  proof
    assume "map_of session_prefs ?sid = None"
    then have "map_of ?sp' ?sid = Some (PDict ?available)"
      by (simp add: dict_setdefault_def map_of_dict_setitem)
    with avail show "\<exists>seeded. map_of ?sp' ?sid = Some (PDict seeded) \<and>
         (\<forall>k. map_of seeded k =
            (if k = ''desk:last_worked'' \<and> map_of ?reg k = Some (PStr []) \<and> truthy ?desk
             then Some ?desk else map_of ?reg k))"
      by blast
  qed
  have b: "map_of session_prefs ?sid \<noteq> None \<longrightarrow> ?sp' = session_prefs"
    by (auto simp: dict_setdefault_def)
  have c: "\<forall>k. k \<noteq> ?sid \<longrightarrow> map_of ?sp' k = map_of session_prefs k"
    by (auto simp: dict_setdefault_def map_of_dict_setitem split: option.splits)
  let ?u = "dict_setitem updates1 session_preferences_key (PDict ?sp')"
  let ?p = "get_privileges E ?u (get_role E ?u)"
  let ?upd = "dict_setitem (dict_setitem ?u privileges_key ?p)
                action_key (get_privileged_actions E ?p)"
  have r: "set_session_based_prefs E session_id user_id calls =
             (Inr (), calls @ [(user_id, ?upd, ?ud')])"
    by (rule set_session_based_prefs_seeded [OF found sd])
  have m: "map_of ?upd session_preferences_key = Some (PDict ?sp')"
    by (simp add: map_of_dict_setitem)
  show ?thesis
    by (rule exI [of _ ?upd], rule exI [of _ ?ud'], rule exI [of _ ?sp'])
       (intro conjI r m a b c)
qed

theorem set_session_based_prefs_seeds_session_witness:
  "example_users (PObjectId ''u1'') = Some example_user1 \<and>
   map_of registered_session_preferences ''desk:last_worked'' = Some (PStr []) \<and>
   map_of example_user1 ''desk'' = Some (PStr ''desk42'') \<and>
   fst (set_session_based_prefs example_env (PStr ''s3'') (PObjectId ''u1'') []) = Inr () \<and>
   (\<exists>prefs seeded. map_of (fst (snd (hd (snd
        (set_session_based_prefs example_env (PStr ''s3'') (PObjectId ''u1'') [])))))
        session_preferences_key = Some (PDict prefs) \<and>
      map_of prefs ''s3'' = Some (PDict seeded) \<and>
      map_of seeded ''desk:last_worked'' = Some (PStr ''desk42'') \<and>
      map_of seeded ''desk:items'' = Some (PList []))"
  using set_session_based_prefs_seeds_session
          [of example_env "PObjectId ''u1''" example_user1 "[]" "PStr ''s3''" "[]"]
  by (simp add: example_session_result) (simp add: example_defs dict_get_def)

section \<open>Fetching\<close>

text \<open>
  Claim C8. \<open>find_one\<close> looks the given id up in the Session Store. When a session is
  found, the user document of the session's \<^verbatim>\<open>user\<close> is returned with \<^verbatim>\<open>_id\<close> set
  to the session's \<^verbatim>\<open>_id\<close>. When none is found, the user document for the given id is
  returned with \<^verbatim>\<open>_id\<close> set to that id: unchanged, when the store returns the
  document that carries the id it was asked for.
\<close>

theorem find_one_resolves_session:
  assumes lid: "map_of lookup ''_id'' = Some lookup_id"
  shows "(\<forall>sess uid sid d.
            sessions_find_one E lookup_id = Some sess \<and> sess \<noteq> [] \<and>
            map_of sess ''user'' = Some uid \<and> map_of sess ''_id'' = Some sid \<and>
            super_find_one E uid = Some d \<and> d \<noteq> [] \<longrightarrow>
              find_one E lookup = Inr (Some (dict_setitem d ''_id'' sid)) \<and>
              map_of (dict_setitem d ''_id'' sid) ''_id'' = Some sid) \<and>
         (\<forall>d. sessions_find_one E lookup_id = None \<and>
               super_find_one E lookup_id = Some d \<and> d \<noteq> [] \<longrightarrow>
                 find_one E lookup = Inr (Some (dict_setitem d ''_id'' lookup_id)) \<and>
                 (map_of d ''_id'' = Some lookup_id \<longrightarrow> find_one E lookup = Inr (Some d)))"
proof (intro conjI allI impI)
  fix sess uid sid d
  assume h: "sessions_find_one E lookup_id = Some sess \<and> sess \<noteq> [] \<and>
            map_of sess ''user'' = Some uid \<and> map_of sess ''_id'' = Some sid \<and>
            super_find_one E uid = Some d \<and> d \<noteq> []"
  then show "find_one E lookup = Inr (Some (dict_setitem d ''_id'' sid))"
    using lid by (simp add: find_one_def dict_getitem_def if_found_nonempty)
  show "map_of (dict_setitem d ''_id'' sid) ''_id'' = Some sid"
    by (simp add: map_of_dict_setitem)
next
  fix d
  assume h: "sessions_find_one E lookup_id = None \<and>
               super_find_one E lookup_id = Some d \<and> d \<noteq> []"
  then show r: "find_one E lookup = Inr (Some (dict_setitem d ''_id'' lookup_id))"
    using lid by (simp add: find_one_def dict_getitem_def if_found_nonempty)
  assume "map_of d ''_id'' = Some lookup_id"
  then show "find_one E lookup = Inr (Some d)"
    using r by (simp add: dict_setitem_same)
qed

theorem find_one_resolves_session_witness:
  "find_one example_env [(''_id'', PStr ''s1'')] =
     Inr (Some
       [(''_id'', PStr ''s1''),
        (''user_preferences'',
           PDict [(''archive:view'', PStr ''mgrid''), (''editor:theme'', PStr ''dark'')]),
        (''session_preferences'',
           PDict [(''s1'', PDict [(''desk:last_worked'', PStr ''desk1'')]),
                  (''s2'', PDict [(''desk:last_worked'', PStr ''desk7'')])])]) \<and>
   find_one example_env [(''_id'', PObjectId ''u1'')] = Inr (Some example_user1)"
  using find_one_resolves_session [of "[(''_id'', PStr ''s1'')]" "PStr ''s1''" example_env]
    find_one_resolves_session
      [of "[(''_id'', PObjectId ''u1'')]" "PObjectId ''u1''" example_env]
  by (simp add: example_defs)

text \<open>
  Claim C9. \<open>on_fetched_item\<close> replaces \<^verbatim>\<open>session_preferences\<close> by its entry for the
  session id of the request; when the document has no such entry (or no
  \<^verbatim>\<open>session_preferences\<close> at all) it raises \<^verbatim>\<open>KeyError\<close> for that session id.
\<close>

theorem on_fetched_item_narrows_session_preferences:
  "(\<forall>sp v. dict_get doc session_preferences_key (PDict []) = PDict sp \<and>
           map_of sp (view_args_id E) = Some v \<longrightarrow>
             on_fetched_item E doc = Inr (dict_setitem doc session_preferences_key v) \<and>
             map_of (dict_setitem doc session_preferences_key v) session_preferences_key
               = Some v) \<and>
   (\<forall>sp. dict_get doc session_preferences_key (PDict []) = PDict sp \<and>
         map_of sp (view_args_id E) = None \<longrightarrow>
           on_fetched_item E doc = Inl (KeyError (view_args_id E)))"
  by (simp add: on_fetched_item_def dict_getitem_def map_of_dict_setitem)

theorem on_fetched_item_narrows_session_preferences_witness:
  "on_fetched_item example_env example_user2 =
     Inr [(''_id'', PObjectId ''u2''),
          (''user_preferences'',
             PDict [(''archive:view'', PStr ''mgrid''), (''editor:theme'', PStr ''dark'')]),
          (''session_preferences'', PDict [(''desk:last_worked'', PStr ''desk1'')])] \<and>
   on_fetched_item example_env example_user1 = Inl (KeyError ''s1'')"
  using on_fetched_item_narrows_session_preferences [of example_user2 example_env]
    on_fetched_item_narrows_session_preferences [of example_user1 example_env]
  by (simp add: example_defs dict_get_def)

section \<open>Authorization\<close>

text \<open>
  Claim C7. \<open>is_authorized\<close> is to return false when the session cannot be resolved. It
  does not: for the session id \<open>s9\<close>, which the Session Store does not know,
  \<^verbatim>\<open>session.get\<close> is called on \<^verbatim>\<open>None\<close> and the call ends in \<^verbatim>\<open>AttributeError\<close>.
\<close>

theorem is_authorized_unresolved_session_raises:
  "is_authorized example_env [(''user_id'', PStr ''s9'')] = Inl AttributeError"
  by (simp add: is_authorized_def example_env_def example_sessions_def dict_get_def
      dict_getitem_def)

section \<open>Email notification\<close>

text \<open>
  Claim C10. Called without a user id, \<open>email_notification_is_enabled\<close> returns a truthy
  value exactly when \<open>preferences\<close> is a dictionary whose \<^verbatim>\<open>email:notification\<close> entry
  is a non-empty dictionary with a truthy \<^verbatim>\<open>enabled\<close> value; and when \<open>preferences\<close>
  is no dictionary, or has no such entry, it returns the empty dictionary, which is
  falsy, and raises nothing.
\<close>

theorem email_notification_is_enabled_truthy_iff:
  "((\<exists>v. email_notification_is_enabled E PNone preferences = Inr v \<and> truthy v) \<longleftrightarrow>
     (\<exists>d se x. preferences = PDict d \<and> map_of d ''email:notification'' = Some (PDict se) \<and>
        se \<noteq> [] \<and> map_of se ''enabled'' = Some x \<and> truthy x)) \<and>
   ((\<forall>d. preferences = PDict d \<longrightarrow> map_of d ''email:notification'' = None) \<longrightarrow>
      email_notification_is_enabled E PNone preferences = Inr (PDict []))"
proof (intro conjI iffI impI)
  assume "\<exists>v. email_notification_is_enabled E PNone preferences = Inr v \<and> truthy v"
  then obtain v where r: "email_notification_is_enabled E PNone preferences = Inr v"
    and tv: "truthy v" by blast
  show "\<exists>d se x. preferences = PDict d \<and> map_of d ''email:notification'' = Some (PDict se) \<and>
        se \<noteq> [] \<and> map_of se ''enabled'' = Some x \<and> truthy x"
  proof (cases preferences)
    case (PDict d)
    show ?thesis
    proof (cases "map_of d ''email:notification''")
      case None
      with PDict r tv show ?thesis
        by (auto simp: email_notification_is_enabled_def dict_get_def)
    next
      case (Some x)
      with PDict r have "if truthy x then py_get x ''enabled'' (PBool False) = Inr v else x = v"
        by (simp add: email_notification_is_enabled_def dict_get_def split: if_splits)
      with tv have tx: "truthy x" and g: "py_get x ''enabled'' (PBool False) = Inr v"
        by (auto split: if_splits)
      from py_get_truthy [OF g tv] obtain se where "x = PDict se" "map_of se ''enabled'' = Some v"
        by blast
      with PDict Some tx tv show ?thesis by auto
    qed
  qed (use r tv in \<open>auto simp: email_notification_is_enabled_def\<close>)
next
  assume "\<exists>d se x. preferences = PDict d \<and> map_of d ''email:notification'' = Some (PDict se) \<and>
        se \<noteq> [] \<and> map_of se ''enabled'' = Some x \<and> truthy x"
  then show "\<exists>v. email_notification_is_enabled E PNone preferences = Inr v \<and> truthy v"
    by (auto simp: email_notification_is_enabled_def dict_get_def)
next
  assume "\<forall>d. preferences = PDict d \<longrightarrow> map_of d ''email:notification'' = None"
  then show "email_notification_is_enabled E PNone preferences = Inr (PDict [])"
    by (cases preferences) (simp_all add: email_notification_is_enabled_def dict_get_def)
qed

theorem email_notification_is_enabled_truthy_iff_witness:
  "email_notification_is_enabled example_env PNone
     (PDict [(''email:notification'', PDict [(''enabled'', PBool True)])]) = Inr (PBool True) \<and>
   email_notification_is_enabled example_env PNone (PStr ''on'') = Inr (PDict [])"
  using email_notification_is_enabled_truthy_iff
          [of example_env "PDict [(''email:notification'', PDict [(''enabled'', PBool True)])]"]
        email_notification_is_enabled_truthy_iff [of example_env "PStr ''on''"]
  by (simp add: email_notification_is_enabled_def dict_get_def)

end
